theory Spec2Isabelle
  imports Main "HOL-Library.Word"
begin

unbundle bit_operations_syntax

section \<open>Python values\<close>

text \<open>
  A Python \<open>str\<close> is a sequence of Unicode code points, and iterating over it yields one
  code point at a time. It is modelled as a list of code points (natural numbers), not as
  a list of bytes, so that a non-ASCII character is one element. \<open>lit\<close> turns an ASCII
  literal of the source into such a string; the emoji of the source are given by their
  code points.
\<close>

type_synonym ustr = "nat list"

definition lit :: "string \<Rightarrow> ustr" where
  "lit s = map of_char s"

definition emoji_pot :: ustr where "emoji_pot = [0x1F372]"
definition emoji_warning :: ustr where "emoji_warning = [0x26A0, 0xFE0F]"
definition emoji_magnifier :: ustr where "emoji_magnifier = [0x1F50D]"
definition emoji_check :: ustr where "emoji_check = [0x2705]"
definition emoji_cross :: ustr where "emoji_cross = [0x274C]"
definition emoji_question :: ustr where "emoji_question = [0x2753]"
definition emoji_clipboard :: ustr where "emoji_clipboard = [0x1F4CB]"
definition emoji_label :: ustr where "emoji_label = [0x1F3F7, 0xFE0F]"
definition emoji_camera :: ustr where "emoji_camera = [0x1F4F8]"
definition emoji_tools :: ustr where "emoji_tools = [0x1F6E0, 0xFE0F]"
definition emoji_star :: ustr where "emoji_star = [0x1F31F]"

text \<open>
  The value \<open>json.loads\<close> returns: \<open>None\<close>, a bool, an int (unbounded), a float (an
  IEEE double, kept as its 64 bits), a str, a list, or a dict with str keys (kept as its
  items in insertion order).
\<close>

datatype json =
    JNull
  | JBool bool
  | JInt int
  | JFloat "64 word"
  | JStr ustr
  | JList "json list"
  | JDict "(ustr \<times> json) list"

text \<open>
  The instances of \<open>Exception\<close> the program can meet: the four the interpreter raises
  in the code below, and any exception of a library (PIL, openai, json), which carries the
  text \<open>str(e)\<close> gives for it.
\<close>

datatype pyexc =
    AttributeError | TypeError | IndexError | UnboundLocalError | LibraryError ustr

text \<open>Truth value of an object, as \<open>if x:\<close> and \<open>all\<close> test it. A float is false when it is
  \<open>0.0\<close> or \<open>-0.0\<close>.\<close>

fun truthy :: "json \<Rightarrow> bool" where
  "truthy JNull = False"
| "truthy (JBool b) = b"
| "truthy (JInt i) = (i \<noteq> 0)"
| "truthy (JFloat w) = (w AND 0x7FFFFFFFFFFFFFFF \<noteq> 0)"
| "truthy (JStr s) = (s \<noteq> [])"
| "truthy (JList xs) = (xs \<noteq> [])"
| "truthy (JDict kvs) = (kvs \<noteq> [])"

text \<open>\<open>result.get(key, default)\<close>: only a dict has the method \<open>get\<close>.\<close>

fun py_get :: "json \<Rightarrow> ustr \<Rightarrow> json \<Rightarrow> pyexc + json" where
  "py_get (JDict kvs) key dflt =
     Inr (case map_of kvs key of None \<Rightarrow> dflt | Some v \<Rightarrow> v)"
| "py_get _ key dflt = Inl AttributeError"

text \<open>A list and a dict are unhashable: using one as a dict key raises \<open>TypeError\<close>.\<close>

fun hashable :: "json \<Rightarrow> bool" where
  "hashable (JList xs) = False"
| "hashable (JDict kvs) = False"
| "hashable _ = True"

text \<open>\<open>d.get(key, default)\<close> on a dict \<open>d\<close> whose keys are str: a key that is not a str is
  equal to none of them.\<close>

definition dict_get :: "(ustr \<times> ustr) list \<Rightarrow> json \<Rightarrow> ustr \<Rightarrow> pyexc + ustr" where
  "dict_get d key dflt =
     (if \<not> hashable key then Inl TypeError
      else case key of
        JStr s \<Rightarrow> Inr (case map_of d s of None \<Rightarrow> dflt | Some v \<Rightarrow> v)
      | _ \<Rightarrow> Inr dflt)"

text \<open>\<open>sep.join\<close> on a sequence of str.\<close>

fun str_join :: "ustr \<Rightarrow> ustr list \<Rightarrow> ustr" where
  "str_join sep [] = []"
| "str_join sep [x] = x"
| "str_join sep (x # y # ys) = x @ sep @ str_join sep (y # ys)"

text \<open>The items \<open>sep.join(v)\<close> iterates over: the characters of a str, the elements of a
  list, the keys of a dict; any other value is not iterable. Every item must be a str.\<close>

fun as_str :: "json \<Rightarrow> pyexc + ustr" where
  "as_str (JStr s) = Inr s"
| "as_str _ = Inl TypeError"

fun all_str :: "json list \<Rightarrow> pyexc + ustr list" where
  "all_str [] = Inr []"
| "all_str (x # xs) =
     (case as_str x of
        Inl e \<Rightarrow> Inl e
      | Inr s \<Rightarrow> (case all_str xs of Inl e \<Rightarrow> Inl e | Inr ss \<Rightarrow> Inr (s # ss)))"

fun py_join :: "ustr \<Rightarrow> json \<Rightarrow> pyexc + ustr" where
  "py_join sep (JStr s) = Inr (str_join sep (map (\<lambda>c. [c]) s))"
| "py_join sep (JList xs) =
     (case all_str xs of Inl e \<Rightarrow> Inl e | Inr ss \<Rightarrow> Inr (str_join sep ss))"
| "py_join sep (JDict kvs) = Inr (str_join sep (map fst kvs))"
| "py_join sep _ = Inl TypeError"

text \<open>
  A replacement field \<open>{v}\<close> of an f-string: a str is inserted as it is; for any other
  value the built-in \<open>str\<close> gives the text, which is a parameter (\<open>pystr\<close>) of the model.
\<close>

fun fmt :: "(json \<Rightarrow> ustr) \<Rightarrow> json \<Rightarrow> ustr" where
  "fmt pystr (JStr s) = s"
| "fmt pystr v = pystr v"

section \<open>The page and the outside world\<close>

text \<open>
  Every call of the Streamlit API adds an element to the page, in the block (\<open>with\<close>) the
  call stands in. The page is the list of these calls in program order, together with the
  two effects the claims speak of: the PNG encoding and the request sent to the API.
\<close>

datatype place =
    Page | Form | Form_col1 | Form_col2
  | Report | Report_col1 | Report_col2 | Report_col3
  | Quality | Quality_col1 | Quality_col2
  | Details

datatype element =
    Title ustr
  | Markdown ustr bool
  | Text_input ustr bool
  | Text_area ustr ustr
  | File_uploader ustr "ustr list" ustr
  | Image ustr
  | Form_submit_button ustr
  | Form_block ustr
  | Columns "nat list"
  | Container
  | Expander ustr bool
  | Spinner ustr
  | Success ustr
  | Error ustr
  | Info ustr
  | Write json

record request =
  api_key :: ustr
  model :: ustr
  prompt :: ustr
  image_url :: ustr
  response_format :: ustr

datatype event = St place element | Save_png | Create request

definition st :: "place \<Rightarrow> element \<Rightarrow> event list \<Rightarrow> event list" where
  "st p e ui = ui @ [St p e]"

section \<open>The report renderer\<close>

definition severity_color :: "(ustr \<times> ustr) list" where
  "severity_color =
     [(lit ''Critical'', lit ''severity-critical''),
      (lit ''Major'', lit ''severity-major''),
      (lit ''Minor'', lit ''severity-minor''),
      (lit ''None'', lit '''')]"

text \<open>\<open>isinstance(v, list)\<close>.\<close>

fun is_list :: "json \<Rightarrow> bool" where
  "is_list (JList xs) = True"
| "is_list _ = False"

text \<open>
  A step that may raise: when it does, the function ends there with the page as it is and
  the exception; otherwise the rest runs on the value.
\<close>

definition or_raise ::
  "pyexc + 'a \<Rightarrow> event list \<Rightarrow> ('a \<Rightarrow> event list \<times> pyexc option)
     \<Rightarrow> event list \<times> pyexc option" where
  "or_raise r ui k = (case r of Inl e \<Rightarrow> (ui, Some e) | Inr v \<Rightarrow> k v)"

text \<open>
  \<open>display_results\<close> of \<open>app.py\<close>. It returns the page and the exception that ended it, if
  one did; what was added to the page before the exception stays there.
\<close>

definition display_results ::
  "(json \<Rightarrow> ustr) \<Rightarrow> json \<Rightarrow> ustr \<Rightarrow> ustr \<Rightarrow> ustr \<Rightarrow> event list
     \<Rightarrow> event list \<times> pyexc option" where
  "display_results pystr result cafeteria_name question analysis_date ui0 =
    (let ui1 = st Page Container ui0;
         ui2 = st Report (Markdown (lit ''## '' @ emoji_clipboard @ lit '' Compliance Report'') False) ui1;
         ui3 = st Report (Columns [1, 1, 2]) ui2;
         ui4 = st Report_col1 (Markdown (lit ''**Cafeteria:** '' @ cafeteria_name) False) ui3;
         ui5 = st Report_col1 (Markdown (lit ''**Analysis Date:** '' @ analysis_date) False) ui4
     in
     or_raise (py_get result (lit ''criteria_met'') (JStr (lit ''Unknown''))) ui5 (\<lambda>status.
     let status_icon =
           (if status = JStr (lit ''Yes'') then emoji_check
            else if status = JStr (lit ''No'') then emoji_cross
            else emoji_question);
         ui6 = st Report_col2
                 (Markdown (lit ''**Compliance Status:** '' @ status_icon @ lit '' '' @ fmt pystr status)
                    False) ui5
     in
     or_raise (py_get result (lit ''severity'') (JStr (lit ''Unknown''))) ui6 (\<lambda>severity.
     or_raise (dict_get severity_color severity (lit '''')) ui6 (\<lambda>color_class.
     let ui7 = st Report_col2
                 (Markdown (lit ''**Severity Level:** <span class='' @ [39] @ color_class @ [39]
                             @ lit ''>'' @ fmt pystr severity @ lit ''</span>'')
                    True) ui6
     in
     or_raise (py_get result (lit ''tags'') (JList [])) ui7 (\<lambda>tags0.
     or_raise (if is_list tags0 then map_sum id JStr (py_join (lit '', '') tags0) else Inr tags0)
       ui7 (\<lambda>tags.
     let ui8 = st Report_col3
                 (Markdown (lit ''**Tags:** '' @ emoji_label @ lit '' '' @ fmt pystr tags) False) ui7;
         ui9 = st Page (Expander (emoji_camera @ lit '' Image Quality Analysis'') True) ui8;
         ui10 = st Quality (Columns [1, 1]) ui9
     in
     or_raise (py_get result (lit ''image_quality_issues'') (JList [JStr (lit ''none'')])) ui10
       (\<lambda>issues.
     or_raise
       (if issues = JList [JStr (lit ''none'')]
        then Inr (Success (emoji_check @ lit '' No quality issues detected''))
        else map_sum id (\<lambda>joined. Error (emoji_warning @ lit '' Detected issues: '' @ joined))
               (py_join (lit '', '') issues))
       ui10 (\<lambda>verdict.
     let ui11 = st Quality_col1 verdict ui10 in
     or_raise (py_get result (lit ''quality_assessment'') (JStr (lit ''''))) ui11
       (\<lambda>quality_assessment.
     let ui12 = st Quality_col2
                  (Info (lit ''Quality Impact Assessment: '' @ fmt pystr quality_assessment)) ui11;
         ui13 = st Page (Expander (emoji_magnifier @ lit '' Detailed Compliance Analysis'') False) ui12;
         ui14 = st Details (Markdown (lit ''**Assessment Question:** '' @ question) False) ui13;
         ui15 = st Details (Markdown (lit ''### Explanation'') False) ui14
     in
     or_raise (py_get result (lit ''explanation'') (JStr (lit ''No explanation provided''))) ui15
       (\<lambda>explanation.
     let ui16 = st Details (Write explanation) ui15 in
     or_raise (py_get result (lit ''improvements'') (JStr (lit ''''))) ui16 (\<lambda>improvements.
     if truthy improvements
     then (st Details (Write improvements)
             (st Details (Markdown (lit ''### '' @ emoji_tools @ lit '' Improvement Suggestions'') False)
                ui16),
           None)
     else (st Details (Success (emoji_star @ lit '' No improvements needed - all standards met''))
             ui16,
           None))))))))))))"

section \<open>The form and the analysis\<close>

text \<open>
  What the program calls and does not define: PIL (\<open>Image.open\<close>, the preview
  \<open>st.image\<close> that loads the pixels, \<open>image.save\<close> to PNG), \<open>base64.b64encode\<close>, the
  OpenAI client, \<open>json.loads\<close>, the clock read through \<open>strftime\<close>, the built-in
  \<open>str\<close> on a value that is not a str, and the text of the interpreter's own
  exceptions. They are the fields of the environment. \<open>'f\<close> is an uploaded file and
  \<open>'img\<close> an opened image.
\<close>

record message =
  content :: "ustr option"

record choice =
  message :: message

record response =
  choices :: "choice list"

record ('f, 'img) env =
  Image_open :: "'f \<Rightarrow> pyexc + 'img"
  st_image :: "'img \<Rightarrow> pyexc option"
  save_png :: "'img \<Rightarrow> pyexc + 8 word list"
  b64encode :: "8 word list \<Rightarrow> ustr"
  create :: "request \<Rightarrow> pyexc + response"
  json_loads :: "ustr \<Rightarrow> pyexc + json"
  now :: ustr
  str_of :: "json \<Rightarrow> ustr"
  builtin_text :: "pyexc \<Rightarrow> ustr"

text \<open>\<open>str(e)\<close>.\<close>

fun str_exc :: "('f, 'img) env \<Rightarrow> pyexc \<Rightarrow> ustr" where
  "str_exc env (LibraryError s) = s"
| "str_exc env e = builtin_text env e"

text \<open>The prompt: the f-string of lines 79 to 96, with its line breaks and indentation.\<close>

definition nl :: ustr where
  "nl = [10]"

definition ind :: ustr where
  "ind = replicate 16 32"

definition prompt_text :: "ustr \<Rightarrow> ustr" where
  "prompt_text question =
     nl @ ind @ lit ''You are a food safety manager analyzing a cafeteria image.''
     @ nl @ ind @ lit ''Question to evaluate: '' @ question
     @ nl
     @ nl @ ind @ lit ''IMPORTANT INSTRUCTIONS:''
     @ nl @ ind @ lit ''1. First assess image quality (darkness/blurriness)''
     @ nl @ ind @ lit ''2. For blank/empty area requests, dark images may be compliant''
     @ nl @ ind @ lit ''3. Only mark dark/blurry images as compliant if they satisfy specific criteria''
     @ nl
     @ nl @ ind @ lit ''Provide JSON analysis with:''
     @ nl @ ind @ lit ''- criteria_met: Yes/No/Unable''
     @ nl @ ind @ lit ''- explanation: 2-3 sentence assessment''
     @ nl @ ind @ lit ''- improvements: actionable suggestions''
     @ nl @ ind @ lit ''- severity: Critical/Major/Minor/None''
     @ nl @ ind @ lit ''- image_quality_issues: list of issues''
     @ nl @ ind @ lit ''- quality_assessment: image quality impact''
     @ nl @ ind @ lit ''- tags: 3-5 descriptive tags''
     @ nl @ ind"

text \<open>
  The body of the \<open>try\<close> of \<open>main\<close> (lines 69 to 119). \<open>pil_image\<close> is the variable
  \<open>image\<close> of the source, bound only when a file was uploaded. The PNG encoding and the request are
  recorded when they are attempted.
\<close>

definition analysis ::
  "('f, 'img) env \<Rightarrow> ustr \<Rightarrow> ustr \<Rightarrow> ustr \<Rightarrow> 'img option \<Rightarrow> event list
     \<Rightarrow> event list \<times> pyexc option" where
  "analysis env key cafeteria_name question pil_image ui0 =
    (let ui1 = st Page (Spinner (emoji_magnifier @ lit '' Analyzing image and preparing report...'')) ui0
     in
     or_raise (case pil_image of None \<Rightarrow> Inl UnboundLocalError | Some img \<Rightarrow> Inr img) ui1 (\<lambda>img.
     let ui2 = ui1 @ [Save_png] in
     or_raise (save_png env img) ui2 (\<lambda>png.
     let img_base64 = b64encode env png;
         req = \<lparr>api_key = key, model = lit ''gpt-4o'', prompt = prompt_text question,
                image_url = lit ''data:image/png;base64,'' @ img_base64,
                response_format = lit ''json_object''\<rparr>;
         ui3 = ui2 @ [Create req]
     in
     or_raise (create env req) ui3 (\<lambda>response.
     or_raise (case choices response of [] \<Rightarrow> Inl IndexError | c # cs \<Rightarrow> Inr c) ui3 (\<lambda>choice0.
     or_raise (case content (message choice0) of
                 None \<Rightarrow> Inl TypeError
               | Some s \<Rightarrow> json_loads env s) ui3 (\<lambda>result.
     let analysis_date = now env;
         ui4 = st Page (Success (emoji_check @ lit '' Analysis Complete!'')) ui3
     in display_results (str_of env) result cafeteria_name question analysis_date ui4))))))"

text \<open>
  \<open>main\<close> of \<open>app.py\<close>, for one run of the script: the arguments after the environment are
  what the four input widgets and the submit button return. The result is the page and the
  exception that left \<open>main\<close>, if one did.
\<close>

definition main ::
  "('f, 'img) env \<Rightarrow> ustr \<Rightarrow> ustr \<Rightarrow> ustr \<Rightarrow> 'f option \<Rightarrow> bool \<Rightarrow> event list
     \<Rightarrow> event list \<times> pyexc option" where
  "main env key cafeteria_name question uploaded_image submitted ui0 =
    (let ui1 = st Page (Title (emoji_pot @ lit '' HungerBox Food Safety Analyzer'')) ui0;
         ui2 = st Page (Markdown (lit ''### AI-powered Compliance Assessment for Cafeteria Operations'')
                          False) ui1;
         ui3 = st Page (Form_block (lit ''input_form'')) ui2;
         ui4 = st Form (Columns [1, 1]) ui3;
         ui5 = st Form_col1 (Text_input (lit ''OpenAI API Key'') True) ui4;
         ui6 = st Form_col1 (Text_input (lit ''Cafeteria Name'') False) ui5;
         ui7 = st Form_col1 (Text_area (lit ''Assessment Question'')
                               (lit ''Enter your food safety question...'')) ui6;
         ui8 = st Form_col2 (File_uploader (lit ''Upload Cafeteria Image'')
                               [lit ''jpg'', lit ''jpeg'', lit ''png'']
                               (lit ''Upload a clear image of the area to assess'')) ui7
     in
     or_raise (case uploaded_image of
                 None \<Rightarrow> Inr None
               | Some f \<Rightarrow> map_sum id Some (Image_open env f)) ui8 (\<lambda>pil_image.
     or_raise (case pil_image of
                 None \<Rightarrow> Inr ui8
               | Some img \<Rightarrow>
                   (case st_image env img of
                      Some e \<Rightarrow> Inl e
                    | None \<Rightarrow> Inr (st Form_col2 (Image (lit ''Preview of Uploaded Image'')) ui8)))
       ui8 (\<lambda>ui9.
     let ui10 = st Form (Form_submit_button (lit ''Analyze Compliance'')) ui9 in
     if submitted then
       if \<not> (key \<noteq> [] \<and> cafeteria_name \<noteq> [] \<and> question \<noteq> [] \<and> uploaded_image \<noteq> None)
       then (st Page (Error (emoji_warning
                       @ lit '' Please fill all required fields and upload an image'')) ui10,
             None)
       else
         (case analysis env key cafeteria_name question pil_image ui10 of
            (ui11, None) \<Rightarrow> (ui11, None)
          | (ui11, Some e) \<Rightarrow>
              (st Page (Error (lit ''Analysis failed: '' @ str_exc env e)) ui11, None))
     else (ui10, None))))"

section \<open>Inputs of the examples\<close>

text \<open>
  A stand-in for the built-in \<open>str\<close> in the examples: every value they format is a str,
  which \<open>fmt\<close> inserts without calling it.
\<close>

definition str_stub :: "json \<Rightarrow> ustr" where
  "str_stub v = []"


section \<open>Attempts of the analysis\<close>

text \<open>
  The two steps of the analysis that leave the process or do the encoding work: the PNG
  encoding of the image and the request sent to the model.
\<close>

fun is_attempt :: "event \<Rightarrow> bool" where
  "is_attempt (St p e) = False"
| "is_attempt Save_png = True"
| "is_attempt (Create r) = True"

fun is_create :: "event \<Rightarrow> bool" where
  "is_create (Create r) = True"
| "is_create ev = False"

fun is_error :: "event \<Rightarrow> bool" where
  "is_error (St p (Error m)) = True"
| "is_error ev = False"

text \<open>
  Two environments for the examples. In the first the uploaded file is not an image that
  PIL can read; in the second the image is read and encoded and the request to the model
  fails with a connection error.
\<close>

definition unreadable_env :: "(unit, unit) env" where
  "unreadable_env =
     \<lparr>Image_open = (\<lambda>f. Inl (LibraryError (lit ''cannot identify image file''))),
      st_image = (\<lambda>img. None),
      save_png = (\<lambda>img. Inr []),
      b64encode = (\<lambda>bs. []),
      create = (\<lambda>req. Inl (LibraryError (lit ''Connection error.''))),
      json_loads = (\<lambda>s. Inr (JDict [])),
      now = lit ''2024-01-01 00:00:00'',
      str_of = str_stub,
      builtin_text = (\<lambda>e. [])\<rparr>"

definition offline_env :: "(unit, unit) env" where
  "offline_env =
     \<lparr>Image_open = (\<lambda>f. Inr ()),
      st_image = (\<lambda>img. None),
      save_png = (\<lambda>img. Inr []),
      b64encode = (\<lambda>bs. []),
      create = (\<lambda>req. Inl (LibraryError (lit ''Connection error.''))),
      json_loads = (\<lambda>s. Inr (JDict [])),
      now = lit ''2024-01-01 00:00:00'',
      str_of = str_stub,
      builtin_text = (\<lambda>e. [])\<rparr>"
section \<open>Auxiliary facts\<close>

lemma lit_eq_iff: "lit s = lit t \<longleftrightarrow> s = t"
  unfolding lit_def by (simp add: inj_map_eq_map inj_on_def)

lemma lit_eq_Nil: "lit s = [] \<longleftrightarrow> s = []"
  by (simp add: lit_def)

lemma or_raise_Inr: "or_raise (Inr v) ui k = k v"
  by (simp add: or_raise_def)

lemma or_raise_Inl: "or_raise (Inl e) ui k = (ui, Some e)"
  by (simp add: or_raise_def)

text \<open>A step that may raise keeps what is on the page: a prefix stays a prefix.\<close>

lemma or_raise_extends:
  assumes "\<exists>rest. ui = P @ rest" and "\<And>v. \<exists>rest. fst (k v) = P @ rest"
  shows "\<exists>rest. fst (or_raise r ui k) = P @ rest"
  using assms by (cases r) (simp_all add: or_raise_def)

lemma or_raise_frame:
  assumes "\<And>v. k v = (ui @ fst (k' v), snd (k' v))"
  shows "or_raise r (ui @ xs) k = (ui @ fst (or_raise r xs k'), snd (or_raise r xs k'))"
  using assms by (cases r) (simp_all add: or_raise_def)

lemma at_position:
  assumes "\<exists>rest. xs = (P @ [X]) @ rest" and "ys = ui @ xs" and "length P = n"
  shows "\<exists>before rest. ys = ui @ before @ [X] @ rest \<and> length before = n"
  using assms by auto

lemma all_str_map_JStr: "all_str (map JStr ss) = Inr ss"
  by (induction ss) simp_all

lemma map_JStr_eq_single: "map JStr ss = [JStr x] \<longleftrightarrow> ss = [x]"
  by (cases ss) auto

section \<open>The report renderer: what it adds to the page\<close>

text \<open>
  The renderer only appends: run on a page \<open>ui\<close>, it yields \<open>ui\<close> followed by what it yields
  on the empty page, and the same outcome.
\<close>

lemma display_results_frame:
  "display_results pystr r c q d ui
     = (ui @ fst (display_results pystr r c q d []), snd (display_results pystr r c q d []))"
  unfolding display_results_def Let_def st_def
  apply (simp only: append_Nil append_assoc)
  apply (intro or_raise_frame[where xs = "_ # _", simplified] or_raise_frame)
  apply simp_all
  done

lemma display_results_fst:
  "fst (display_results pystr r c q d ui) = ui @ fst (display_results pystr r c q d [])"
  by (subst display_results_frame) simp

text \<open>The renderer reads the response only through its seven \<open>get\<close> calls.\<close>

lemma display_results_cong:
  assumes "py_get r1 (lit ''criteria_met'') (JStr (lit ''Unknown''))
             = py_get r2 (lit ''criteria_met'') (JStr (lit ''Unknown''))"
    and "py_get r1 (lit ''severity'') (JStr (lit ''Unknown''))
             = py_get r2 (lit ''severity'') (JStr (lit ''Unknown''))"
    and "py_get r1 (lit ''tags'') (JList []) = py_get r2 (lit ''tags'') (JList [])"
    and "py_get r1 (lit ''image_quality_issues'') (JList [JStr (lit ''none'')])
             = py_get r2 (lit ''image_quality_issues'') (JList [JStr (lit ''none'')])"
    and "py_get r1 (lit ''quality_assessment'') (JStr (lit ''''))
             = py_get r2 (lit ''quality_assessment'') (JStr (lit ''''))"
    and "py_get r1 (lit ''explanation'') (JStr (lit ''No explanation provided''))
             = py_get r2 (lit ''explanation'') (JStr (lit ''No explanation provided''))"
    and "py_get r1 (lit ''improvements'') (JStr (lit ''''))
             = py_get r2 (lit ''improvements'') (JStr (lit ''''))"
  shows "display_results pystr r1 c q d ui = display_results pystr r2 c q d ui"
  unfolding display_results_def by (simp only: assms)

text \<open>The first elements of the report, as far as the steps before them did not raise.\<close>

lemma status_prefix:
  assumes "py_get result (lit ''criteria_met'') (JStr (lit ''Unknown'')) = Inr status"
  shows "\<exists>rest. fst (display_results pystr result c q d []) =
     ([St Page Container,
       St Report (Markdown (lit ''## '' @ emoji_clipboard @ lit '' Compliance Report'') False),
       St Report (Columns [1, 1, 2]),
       St Report_col1 (Markdown (lit ''**Cafeteria:** '' @ c) False),
       St Report_col1 (Markdown (lit ''**Analysis Date:** '' @ d) False)] @
      [St Report_col2 (Markdown (lit ''**Compliance Status:** ''
         @ (if status = JStr (lit ''Yes'') then emoji_check
            else if status = JStr (lit ''No'') then emoji_cross else emoji_question)
         @ lit '' '' @ fmt pystr status) False)]) @ rest"
  unfolding display_results_def Let_def st_def
  apply (simp only: assms or_raise_Inr)
  apply (intro or_raise_extends)
  apply simp_all
  done

lemma severity_prefix:
  assumes "py_get result (lit ''criteria_met'') (JStr (lit ''Unknown'')) = Inr status"
    and "py_get result (lit ''severity'') (JStr (lit ''Unknown'')) = Inr severity"
    and "dict_get severity_color severity (lit '''') = Inr color_class"
  shows "\<exists>rest. fst (display_results pystr result c q d []) =
     ([St Page Container,
       St Report (Markdown (lit ''## '' @ emoji_clipboard @ lit '' Compliance Report'') False),
       St Report (Columns [1, 1, 2]),
       St Report_col1 (Markdown (lit ''**Cafeteria:** '' @ c) False),
       St Report_col1 (Markdown (lit ''**Analysis Date:** '' @ d) False),
       St Report_col2 (Markdown (lit ''**Compliance Status:** ''
         @ (if status = JStr (lit ''Yes'') then emoji_check
            else if status = JStr (lit ''No'') then emoji_cross else emoji_question)
         @ lit '' '' @ fmt pystr status) False)] @
      [St Report_col2 (Markdown (lit ''**Severity Level:** <span class='' @ [39] @ color_class
         @ [39] @ lit ''>'' @ fmt pystr severity @ lit ''</span>'') True)]) @ rest"
  unfolding display_results_def Let_def st_def
  apply (simp only: assms or_raise_Inr)
  apply (intro or_raise_extends)
  apply simp_all
  done

lemma tags_prefix:
  assumes "py_get result (lit ''criteria_met'') (JStr (lit ''Unknown'')) = Inr status"
    and "py_get result (lit ''severity'') (JStr (lit ''Unknown'')) = Inr severity"
    and "dict_get severity_color severity (lit '''') = Inr color_class"
    and "py_get result (lit ''tags'') (JList []) = Inr tags0"
    and "(if is_list tags0 then map_sum id JStr (py_join (lit '', '') tags0) else Inr tags0)
           = Inr tags"
  shows "\<exists>rest. fst (display_results pystr result c q d []) =
     ([St Page Container,
       St Report (Markdown (lit ''## '' @ emoji_clipboard @ lit '' Compliance Report'') False),
       St Report (Columns [1, 1, 2]),
       St Report_col1 (Markdown (lit ''**Cafeteria:** '' @ c) False),
       St Report_col1 (Markdown (lit ''**Analysis Date:** '' @ d) False),
       St Report_col2 (Markdown (lit ''**Compliance Status:** ''
         @ (if status = JStr (lit ''Yes'') then emoji_check
            else if status = JStr (lit ''No'') then emoji_cross else emoji_question)
         @ lit '' '' @ fmt pystr status) False),
       St Report_col2 (Markdown (lit ''**Severity Level:** <span class='' @ [39] @ color_class
         @ [39] @ lit ''>'' @ fmt pystr severity @ lit ''</span>'') True)] @
      [St Report_col3 (Markdown (lit ''**Tags:** '' @ emoji_label @ lit '' '' @ fmt pystr tags)
         False)]) @ rest"
  unfolding display_results_def Let_def st_def
  apply (simp only: assms or_raise_Inr)
  apply (intro or_raise_extends)
  apply simp_all
  done

lemma issues_prefix:
  assumes "py_get result (lit ''criteria_met'') (JStr (lit ''Unknown'')) = Inr status"
    and "py_get result (lit ''severity'') (JStr (lit ''Unknown'')) = Inr severity"
    and "dict_get severity_color severity (lit '''') = Inr color_class"
    and "py_get result (lit ''tags'') (JList []) = Inr tags0"
    and "(if is_list tags0 then map_sum id JStr (py_join (lit '', '') tags0) else Inr tags0)
           = Inr tags"
    and "py_get result (lit ''image_quality_issues'') (JList [JStr (lit ''none'')]) = Inr issues"
    and "(if issues = JList [JStr (lit ''none'')]
          then Inr (Success (emoji_check @ lit '' No quality issues detected''))
          else map_sum id (\<lambda>joined. Error (emoji_warning @ lit '' Detected issues: '' @ joined))
                 (py_join (lit '', '') issues)) = Inr verdict"
  shows "\<exists>rest. fst (display_results pystr result c q d []) =
     ([St Page Container,
       St Report (Markdown (lit ''## '' @ emoji_clipboard @ lit '' Compliance Report'') False),
       St Report (Columns [1, 1, 2]),
       St Report_col1 (Markdown (lit ''**Cafeteria:** '' @ c) False),
       St Report_col1 (Markdown (lit ''**Analysis Date:** '' @ d) False),
       St Report_col2 (Markdown (lit ''**Compliance Status:** ''
         @ (if status = JStr (lit ''Yes'') then emoji_check
            else if status = JStr (lit ''No'') then emoji_cross else emoji_question)
         @ lit '' '' @ fmt pystr status) False),
       St Report_col2 (Markdown (lit ''**Severity Level:** <span class='' @ [39] @ color_class
         @ [39] @ lit ''>'' @ fmt pystr severity @ lit ''</span>'') True),
       St Report_col3 (Markdown (lit ''**Tags:** '' @ emoji_label @ lit '' '' @ fmt pystr tags)
         False),
       St Page (Expander (emoji_camera @ lit '' Image Quality Analysis'') True),
       St Quality (Columns [1, 1])] @
      [St Quality_col1 verdict]) @ rest"
  unfolding display_results_def Let_def st_def
  apply (simp only: assms or_raise_Inr)
  apply (intro or_raise_extends)
  apply simp_all
  done

text \<open>The steps between the status line and the image quality block, when they do not raise.\<close>

lemma dict_get_severity:
  assumes "hashable severity"
  shows "\<exists>cls. dict_get severity_color severity (lit '''') = Inr cls
     \<and> (severity = JStr (lit ''Critical'') \<longrightarrow> cls = lit ''severity-critical'')
     \<and> (severity = JStr (lit ''Major'') \<longrightarrow> cls = lit ''severity-major'')
     \<and> (severity = JStr (lit ''Minor'') \<longrightarrow> cls = lit ''severity-minor'')
     \<and> (severity \<noteq> JStr (lit ''Critical'') \<and> severity \<noteq> JStr (lit ''Major'')
          \<and> severity \<noteq> JStr (lit ''Minor'') \<longrightarrow> cls = [])"
  using assms
  by (cases severity) (auto simp: dict_get_def severity_color_def lit_eq_iff lit_eq_Nil)

lemma tags_step:
  assumes "\<not> is_list tags0 \<or> (\<exists>ts. tags0 = JList (map JStr ts))"
  shows "\<exists>tags. (if is_list tags0 then map_sum id JStr (py_join sep tags0) else Inr tags0)
           = Inr tags"
  using assms by (auto simp: all_str_map_JStr)

lemma verdict_line:
  assumes "py_get result (lit ''severity'') (JStr (lit ''Unknown'')) = Inr severity"
    and "hashable severity"
    and "py_get result (lit ''tags'') (JList []) = Inr tags0"
    and "\<not> is_list tags0 \<or> (\<exists>ts. tags0 = JList (map JStr ts))"
    and "py_get result (lit ''image_quality_issues'') (JList [JStr (lit ''none'')]) = Inr issues"
    and "(if issues = JList [JStr (lit ''none'')]
          then Inr (Success (emoji_check @ lit '' No quality issues detected''))
          else map_sum id (\<lambda>joined. Error (emoji_warning @ lit '' Detected issues: '' @ joined))
                 (py_join (lit '', '') issues)) = Inr verdict"
  shows "\<exists>before rest. fst (display_results pystr result c q d ui)
           = ui @ before @ [St Quality_col1 verdict] @ rest \<and> length before = 10"
proof -
  obtain status where st:
    "py_get result (lit ''criteria_met'') (JStr (lit ''Unknown'')) = Inr status"
    using assms(1) by (cases result) simp_all
  obtain cls where cls: "dict_get severity_color severity (lit '''') = Inr cls"
    using dict_get_severity[OF assms(2)] by blast
  obtain tags where tags:
    "(if is_list tags0 then map_sum id JStr (py_join (lit '', '') tags0) else Inr tags0)
       = Inr tags"
    using tags_step[OF assms(4)] by blast
  show ?thesis
    by (rule at_position[OF issues_prefix[OF st assms(1) cls assms(3) tags assms(5,6)]
          display_results_fst]) simp
qed

section \<open>Claims about the report renderer\<close>

text \<open>
  C4. For every response that is a dict, whatever its other fields hold, the sixth element
  the renderer adds to the page is the compliance status line: the affirmative icon exactly
  when \<open>criteria_met\<close> is the str \<open>Yes\<close>, the negative icon exactly when it is the str
  \<open>No\<close>, the question icon for every other value; the value follows the icon, and a str
  value is shown verbatim. The line is rendered in every case: no value makes it fail.
\<close>

theorem compliance_status_icon:
  assumes "py_get result (lit ''criteria_met'') (JStr (lit ''Unknown'')) = Inr status"
  shows "\<exists>icon before rest.
      fst (display_results pystr result c q d ui) =
        ui @ before @ [St Report_col2 (Markdown (lit ''**Compliance Status:** '' @ icon
           @ lit '' '' @ fmt pystr status) False)] @ rest
    \<and> length before = 5
    \<and> (icon = emoji_check \<longleftrightarrow> status = JStr (lit ''Yes''))
    \<and> (icon = emoji_cross \<longleftrightarrow> status = JStr (lit ''No''))
    \<and> (icon = emoji_question \<longleftrightarrow> status \<noteq> JStr (lit ''Yes'') \<and> status \<noteq> JStr (lit ''No''))
    \<and> (\<forall>s. status = JStr s \<longrightarrow> fmt pystr status = s)"
proof -
  define icon where "icon = (if status = JStr (lit ''Yes'') then emoji_check
     else if status = JStr (lit ''No'') then emoji_cross else emoji_question)"
  have "\<exists>before rest. fst (display_results pystr result c q d ui) =
        ui @ before @ [St Report_col2 (Markdown (lit ''**Compliance Status:** '' @ icon
           @ lit '' '' @ fmt pystr status) False)] @ rest \<and> length before = 5"
    unfolding icon_def
    by (rule at_position[OF status_prefix[OF assms] display_results_fst]) simp
  then obtain before rest where page:
    "fst (display_results pystr result c q d ui) =
        ui @ before @ [St Report_col2 (Markdown (lit ''**Compliance Status:** '' @ icon
           @ lit '' '' @ fmt pystr status) False)] @ rest"
    and len: "length before = 5"
    by blast
  have i1: "icon = emoji_check \<longleftrightarrow> status = JStr (lit ''Yes'')"
    and i2: "icon = emoji_cross \<longleftrightarrow> status = JStr (lit ''No'')"
    and i3: "icon = emoji_question \<longleftrightarrow> status \<noteq> JStr (lit ''Yes'') \<and> status \<noteq> JStr (lit ''No'')"
    by (simp_all add: icon_def emoji_check_def emoji_cross_def emoji_question_def lit_eq_iff)
  have verb: "\<forall>s. status = JStr s \<longrightarrow> fmt pystr status = s"
    by simp
  show ?thesis
    by (intro exI[of _ icon] exI[of _ before] exI[of _ rest] conjI page len i1 i2 i3 verb)
qed

theorem compliance_status_icon_witness:
  "py_get (JDict [(lit ''criteria_met'', JStr (lit ''Partial''))])
       (lit ''criteria_met'') (JStr (lit ''Unknown'')) = Inr (JStr (lit ''Partial''))
   \<and> (\<exists>before rest.
        fst (display_results str_stub (JDict [(lit ''criteria_met'', JStr (lit ''Partial''))])
               (lit ''Cafe 1'') (lit ''Is the floor clean?'') (lit ''2024-05-01 12:00:00'') [])
          = before @ [St Report_col2 (Markdown (lit ''**Compliance Status:** '' @ emoji_question
               @ lit '' '' @ lit ''Partial'') False)] @ rest
        \<and> length before = 5)"
proof -
  have h: "py_get (JDict [(lit ''criteria_met'', JStr (lit ''Partial''))])
       (lit ''criteria_met'') (JStr (lit ''Unknown'')) = Inr (JStr (lit ''Partial''))"
    by simp
  obtain icon before rest where page:
    "fst (display_results str_stub (JDict [(lit ''criteria_met'', JStr (lit ''Partial''))])
               (lit ''Cafe 1'') (lit ''Is the floor clean?'') (lit ''2024-05-01 12:00:00'') [])
          = [] @ before @ [St Report_col2 (Markdown (lit ''**Compliance Status:** '' @ icon
               @ lit '' '' @ fmt str_stub (JStr (lit ''Partial''))) False)] @ rest"
    and len: "length before = 5"
    and i3: "icon = emoji_question \<longleftrightarrow>
       JStr (lit ''Partial'') \<noteq> JStr (lit ''Yes'') \<and> JStr (lit ''Partial'') \<noteq> JStr (lit ''No'')"
    using compliance_status_icon[OF h] by blast
  have "icon = emoji_question"
    using i3 by (simp add: lit_eq_iff)
  then show ?thesis
    using h page len by auto
qed

text \<open>
  C5, as the spec states it: for every response, a severity outside \<open>Critical\<close>,
  \<open>Major\<close>, \<open>Minor\<close> and \<open>None\<close> gets the empty class and is displayed. The class is
  looked up with \<open>severity_color.get(severity, "")\<close> (line 150 of \<open>app.py\<close>), which hashes
  its key: when the response gives a JSON list as severity, the lookup raises \<open>TypeError\<close>
  after the six elements up to the status line, and no severity line is rendered.
\<close>

theorem unhashable_severity_counterexample:
  "snd (display_results str_stub (JDict [(lit ''severity'', JList [JStr (lit ''Critical'')])])
          (lit ''Cafe 1'') (lit ''Is the floor clean?'') (lit ''2024-05-01 12:00:00'') [])
     = Some TypeError
   \<and> length (fst (display_results str_stub
                     (JDict [(lit ''severity'', JList [JStr (lit ''Critical'')])])
                     (lit ''Cafe 1'') (lit ''Is the floor clean?'') (lit ''2024-05-01 12:00:00'') []))
     = 6"
  by (simp add: display_results_def or_raise_def st_def Let_def dict_get_def)

text \<open>
  C5, amended: for every response whose severity is hashable (a str, a number, a bool or
  \<open>None\<close>), the seventh element is the severity line, which shows the value itself inside a
  span whose class is the highlight class of \<open>Critical\<close>, \<open>Major\<close> or \<open>Minor\<close>, three
  distinct non-empty classes, and the empty class for \<open>None\<close> and for every other value.
\<close>

theorem severity_style_mapping:
  assumes "py_get result (lit ''severity'') (JStr (lit ''Unknown'')) = Inr severity"
    and "hashable severity"
  shows "\<exists>cls before rest.
      fst (display_results pystr result c q d ui) =
        ui @ before @ [St Report_col2 (Markdown (lit ''**Severity Level:** <span class='' @ [39]
           @ cls @ [39] @ lit ''>'' @ fmt pystr severity @ lit ''</span>'') True)] @ rest
    \<and> length before = 6
    \<and> (severity = JStr (lit ''Critical'') \<longrightarrow> cls = lit ''severity-critical'')
    \<and> (severity = JStr (lit ''Major'') \<longrightarrow> cls = lit ''severity-major'')
    \<and> (severity = JStr (lit ''Minor'') \<longrightarrow> cls = lit ''severity-minor'')
    \<and> (severity \<noteq> JStr (lit ''Critical'') \<and> severity \<noteq> JStr (lit ''Major'')
          \<and> severity \<noteq> JStr (lit ''Minor'') \<longrightarrow> cls = [])
    \<and> distinct [lit ''severity-critical'', lit ''severity-major'', lit ''severity-minor'', []]
    \<and> (\<forall>s. severity = JStr s \<longrightarrow> fmt pystr severity = s)"
proof -
  obtain status where st:
    "py_get result (lit ''criteria_met'') (JStr (lit ''Unknown'')) = Inr status"
    using assms(1) by (cases result) simp_all
  obtain cls where cls: "dict_get severity_color severity (lit '''') = Inr cls"
    and m: "severity = JStr (lit ''Critical'') \<longrightarrow> cls = lit ''severity-critical''"
      "severity = JStr (lit ''Major'') \<longrightarrow> cls = lit ''severity-major''"
      "severity = JStr (lit ''Minor'') \<longrightarrow> cls = lit ''severity-minor''"
      "severity \<noteq> JStr (lit ''Critical'') \<and> severity \<noteq> JStr (lit ''Major'')
          \<and> severity \<noteq> JStr (lit ''Minor'') \<longrightarrow> cls = []"
    using dict_get_severity[OF assms(2)] by blast
  have "\<exists>before rest. fst (display_results pystr result c q d ui) =
        ui @ before @ [St Report_col2 (Markdown (lit ''**Severity Level:** <span class='' @ [39]
           @ cls @ [39] @ lit ''>'' @ fmt pystr severity @ lit ''</span>'') True)] @ rest
      \<and> length before = 6"
    by (rule at_position[OF severity_prefix[OF st assms(1) cls] display_results_fst]) simp
  then obtain before rest where page:
    "fst (display_results pystr result c q d ui) =
        ui @ before @ [St Report_col2 (Markdown (lit ''**Severity Level:** <span class='' @ [39]
           @ cls @ [39] @ lit ''>'' @ fmt pystr severity @ lit ''</span>'') True)] @ rest"
    and len: "length before = 6"
    by blast
  have dist: "distinct [lit ''severity-critical'', lit ''severity-major'', lit ''severity-minor'', []]"
    by (simp add: lit_eq_iff lit_eq_Nil)
  have verb: "\<forall>s. severity = JStr s \<longrightarrow> fmt pystr severity = s"
    by simp
  show ?thesis
    by (intro exI[of _ cls] exI[of _ before] exI[of _ rest] conjI page len m dist verb)
qed

theorem severity_style_mapping_witness:
  "py_get (JDict [(lit ''severity'', JStr (lit ''Major''))])
       (lit ''severity'') (JStr (lit ''Unknown'')) = Inr (JStr (lit ''Major''))
   \<and> hashable (JStr (lit ''Major''))
   \<and> (\<exists>before rest.
        fst (display_results str_stub (JDict [(lit ''severity'', JStr (lit ''Major''))])
               (lit ''Cafe 1'') (lit ''Is the floor clean?'') (lit ''2024-05-01 12:00:00'') [])
          = before @ [St Report_col2 (Markdown (lit ''**Severity Level:** <span class='' @ [39]
               @ lit ''severity-major'' @ [39] @ lit ''>'' @ lit ''Major'' @ lit ''</span>'')
               True)] @ rest
        \<and> length before = 6)"
proof -
  have h1: "py_get (JDict [(lit ''severity'', JStr (lit ''Major''))])
       (lit ''severity'') (JStr (lit ''Unknown'')) = Inr (JStr (lit ''Major''))"
    by simp
  have h2: "hashable (JStr (lit ''Major''))"
    by simp
  obtain cls before rest where page:
    "fst (display_results str_stub (JDict [(lit ''severity'', JStr (lit ''Major''))])
               (lit ''Cafe 1'') (lit ''Is the floor clean?'') (lit ''2024-05-01 12:00:00'') [])
          = [] @ before @ [St Report_col2 (Markdown (lit ''**Severity Level:** <span class=''
               @ [39] @ cls @ [39] @ lit ''>'' @ fmt str_stub (JStr (lit ''Major''))
               @ lit ''</span>'') True)] @ rest"
    and len: "length before = 6"
    and m: "JStr (lit ''Major'') = JStr (lit ''Major'') \<longrightarrow> cls = lit ''severity-major''"
    using severity_style_mapping[OF h1 h2] by blast
  have "cls = lit ''severity-major''"
    using m by simp
  then show ?thesis
    using h1 h2 page len by auto
qed

text \<open>
  C6. When the steps before it do not raise (the severity is hashable), the eighth element
  is the tags line: a list of str is shown joined with \<open>", "\<close>, a str is shown unchanged.
\<close>

theorem tags_rendering:
  assumes "py_get result (lit ''severity'') (JStr (lit ''Unknown'')) = Inr severity"
    and "hashable severity"
    and "py_get result (lit ''tags'') (JList []) = Inr tags"
  shows "(\<forall>ss. tags = JList (map JStr ss) \<longrightarrow>
            (\<exists>before rest. fst (display_results pystr result c q d ui) =
                ui @ before @ [St Report_col3 (Markdown (lit ''**Tags:** '' @ emoji_label
                   @ lit '' '' @ str_join (lit '', '') ss) False)] @ rest
              \<and> length before = 7))
       \<and> (\<forall>s. tags = JStr s \<longrightarrow>
            (\<exists>before rest. fst (display_results pystr result c q d ui) =
                ui @ before @ [St Report_col3 (Markdown (lit ''**Tags:** '' @ emoji_label
                   @ lit '' '' @ s) False)] @ rest
              \<and> length before = 7))"
proof -
  obtain status where st:
    "py_get result (lit ''criteria_met'') (JStr (lit ''Unknown'')) = Inr status"
    using assms(1) by (cases result) simp_all
  obtain cls where cls: "dict_get severity_color severity (lit '''') = Inr cls"
    using dict_get_severity[OF assms(2)] by blast
  have a: "\<exists>before rest. fst (display_results pystr result c q d ui) =
                ui @ before @ [St Report_col3 (Markdown (lit ''**Tags:** '' @ emoji_label
                   @ lit '' '' @ str_join (lit '', '') ss) False)] @ rest
              \<and> length before = 7"
    if t: "tags = JList (map JStr ss)" for ss
  proof -
    have step: "(if is_list tags then map_sum id JStr (py_join (lit '', '') tags) else Inr tags)
                  = Inr (JStr (str_join (lit '', '') ss))"
      using t by (simp add: all_str_map_JStr)
    show ?thesis
      using at_position[OF tags_prefix[OF st assms(1) cls assms(3) step, of pystr c q d]
          display_results_fst, of 7 ui]
      by simp
  qed
  have b: "\<exists>before rest. fst (display_results pystr result c q d ui) =
                ui @ before @ [St Report_col3 (Markdown (lit ''**Tags:** '' @ emoji_label
                   @ lit '' '' @ s) False)] @ rest
              \<and> length before = 7"
    if t: "tags = JStr s" for s
  proof -
    have step: "(if is_list tags then map_sum id JStr (py_join (lit '', '') tags) else Inr tags)
                  = Inr (JStr s)"
      using t by simp
    show ?thesis
      using at_position[OF tags_prefix[OF st assms(1) cls assms(3) step, of pystr c q d]
          display_results_fst, of 7 ui]
      by simp
  qed
  show ?thesis
    using a b by blast
qed

theorem tags_rendering_witness:
  "py_get (JDict [(lit ''tags'', JList [JStr (lit ''a''), JStr (lit ''b''), JStr (lit ''c'')])])
       (lit ''severity'') (JStr (lit ''Unknown'')) = Inr (JStr (lit ''Unknown''))
   \<and> hashable (JStr (lit ''Unknown''))
   \<and> py_get (JDict [(lit ''tags'', JList [JStr (lit ''a''), JStr (lit ''b''), JStr (lit ''c'')])])
       (lit ''tags'') (JList []) = Inr (JList (map JStr [lit ''a'', lit ''b'', lit ''c'']))
   \<and> (\<exists>before rest.
        fst (display_results str_stub
               (JDict [(lit ''tags'', JList [JStr (lit ''a''), JStr (lit ''b''), JStr (lit ''c'')])])
               (lit ''Cafe 1'') (lit ''Is the floor clean?'') (lit ''2024-05-01 12:00:00'') [])
          = before @ [St Report_col3 (Markdown (lit ''**Tags:** '' @ emoji_label @ lit '' ''
               @ lit ''a, b, c'') False)] @ rest
        \<and> length before = 7)"
proof -
  have h1: "py_get (JDict [(lit ''tags'', JList [JStr (lit ''a''), JStr (lit ''b''), JStr (lit ''c'')])])
       (lit ''severity'') (JStr (lit ''Unknown'')) = Inr (JStr (lit ''Unknown''))"
    by (simp add: lit_eq_iff)
  have h2: "hashable (JStr (lit ''Unknown''))"
    by simp
  have h3: "py_get (JDict [(lit ''tags'', JList [JStr (lit ''a''), JStr (lit ''b''), JStr (lit ''c'')])])
       (lit ''tags'') (JList []) = Inr (JList (map JStr [lit ''a'', lit ''b'', lit ''c'']))"
    by simp
  have j: "str_join (lit '', '') [lit ''a'', lit ''b'', lit ''c''] = lit ''a, b, c''"
    by (simp add: lit_def)
  have "\<exists>before rest.
        fst (display_results str_stub
               (JDict [(lit ''tags'', JList [JStr (lit ''a''), JStr (lit ''b''), JStr (lit ''c'')])])
               (lit ''Cafe 1'') (lit ''Is the floor clean?'') (lit ''2024-05-01 12:00:00'') [])
          = [] @ before @ [St Report_col3 (Markdown (lit ''**Tags:** '' @ emoji_label @ lit '' ''
               @ str_join (lit '', '') [lit ''a'', lit ''b'', lit ''c'']) False)] @ rest
        \<and> length before = 7"
    using tags_rendering[OF h1 h2 h3] by blast
  then show ?thesis
    using h1 h2 h3 unfolding j by simp
qed

text \<open>
  C7. When the steps before it do not raise (the severity is hashable; the tags are not a
  list, or a list of str), the eleventh element is the image quality verdict: for a list
  of str, the success confirmation when the list is exactly \<open>["none"]\<close>, and for every
  other list the warning with the elements joined with \<open>", "\<close>.
\<close>

theorem image_quality_issues_rendering:
  assumes "py_get result (lit ''severity'') (JStr (lit ''Unknown'')) = Inr severity"
    and "hashable severity"
    and "py_get result (lit ''tags'') (JList []) = Inr tags"
    and "\<not> is_list tags \<or> (\<exists>ts. tags = JList (map JStr ts))"
    and "py_get result (lit ''image_quality_issues'') (JList [JStr (lit ''none'')])
           = Inr (JList (map JStr ss))"
  shows "\<exists>before rest.
      fst (display_results pystr result c q d ui) =
        ui @ before @
        [St Quality_col1
           (if ss = [lit ''none'']
            then Success (emoji_check @ lit '' No quality issues detected'')
            else Error (emoji_warning @ lit '' Detected issues: '' @ str_join (lit '', '') ss))]
        @ rest
    \<and> length before = 10"
proof -
  have verdict:
    "(if JList (map JStr ss) = JList [JStr (lit ''none'')]
      then Inr (Success (emoji_check @ lit '' No quality issues detected''))
      else map_sum id (\<lambda>joined. Error (emoji_warning @ lit '' Detected issues: '' @ joined))
             (py_join (lit '', '') (JList (map JStr ss))))
     = Inr (if ss = [lit ''none'']
            then Success (emoji_check @ lit '' No quality issues detected'')
            else Error (emoji_warning @ lit '' Detected issues: '' @ str_join (lit '', '') ss))"
    by (simp add: all_str_map_JStr map_JStr_eq_single)
  show ?thesis
    by (rule verdict_line[OF assms verdict])
qed

theorem image_quality_issues_rendering_witness:
  "py_get (JDict [(lit ''image_quality_issues'', JList [JStr (lit ''blurry''), JStr (lit ''underexposed'')])])
       (lit ''severity'') (JStr (lit ''Unknown'')) = Inr (JStr (lit ''Unknown''))
   \<and> hashable (JStr (lit ''Unknown''))
   \<and> py_get (JDict [(lit ''image_quality_issues'', JList [JStr (lit ''blurry''), JStr (lit ''underexposed'')])])
       (lit ''tags'') (JList []) = Inr (JList [])
   \<and> (\<exists>ts. JList [] = JList (map JStr ts))
   \<and> py_get (JDict [(lit ''image_quality_issues'', JList [JStr (lit ''blurry''), JStr (lit ''underexposed'')])])
       (lit ''image_quality_issues'') (JList [JStr (lit ''none'')])
         = Inr (JList (map JStr [lit ''blurry'', lit ''underexposed'']))
   \<and> (\<exists>before rest.
        fst (display_results str_stub
               (JDict [(lit ''image_quality_issues'', JList [JStr (lit ''blurry''), JStr (lit ''underexposed'')])])
               (lit ''Cafe 1'') (lit ''Is the floor clean?'') (lit ''2024-05-01 12:00:00'') [])
          = before @ [St Quality_col1 (Error (emoji_warning @ lit '' Detected issues: ''
               @ lit ''blurry, underexposed''))] @ rest
        \<and> length before = 10)"
proof -
  let ?r = "JDict [(lit ''image_quality_issues'', JList [JStr (lit ''blurry''), JStr (lit ''underexposed'')])]"
  have h1: "py_get ?r (lit ''severity'') (JStr (lit ''Unknown'')) = Inr (JStr (lit ''Unknown''))"
    by (simp add: lit_eq_iff)
  have h2: "hashable (JStr (lit ''Unknown''))"
    by simp
  have h3: "py_get ?r (lit ''tags'') (JList []) = Inr (JList [])"
    by (simp add: lit_eq_iff)
  have e: "\<exists>ts. JList [] = JList (map JStr ts)"
    by simp
  then have h4: "\<not> is_list (JList []) \<or> (\<exists>ts. JList [] = JList (map JStr ts))"
    by blast
  have h5: "py_get ?r (lit ''image_quality_issues'') (JList [JStr (lit ''none'')])
              = Inr (JList (map JStr [lit ''blurry'', lit ''underexposed'']))"
    by simp
  have j: "str_join (lit '', '') [lit ''blurry'', lit ''underexposed''] = lit ''blurry, underexposed''"
    by (simp add: lit_def)
  have n: "[lit ''blurry'', lit ''underexposed''] \<noteq> [lit ''none'']"
    by simp
  have "\<exists>before rest.
        fst (display_results str_stub ?r
               (lit ''Cafe 1'') (lit ''Is the floor clean?'') (lit ''2024-05-01 12:00:00'') [])
          = [] @ before @ [St Quality_col1
               (if [lit ''blurry'', lit ''underexposed''] = [lit ''none'']
                then Success (emoji_check @ lit '' No quality issues detected'')
                else Error (emoji_warning @ lit '' Detected issues: ''
                       @ str_join (lit '', '') [lit ''blurry'', lit ''underexposed'']))] @ rest
        \<and> length before = 10"
    by (rule image_quality_issues_rendering[OF h1 h2 h3 h4 h5])
  then have "\<exists>before rest.
        fst (display_results str_stub ?r
               (lit ''Cafe 1'') (lit ''Is the floor clean?'') (lit ''2024-05-01 12:00:00'') [])
          = before @ [St Quality_col1 (Error (emoji_warning @ lit '' Detected issues: ''
               @ lit ''blurry, underexposed''))] @ rest
        \<and> length before = 10"
    unfolding j if_not_P[OF n] by simp
  then show ?thesis
    using h1 h2 h3 e h5 by blast
qed

text \<open>
  C10. When \<open>image_quality_issues\<close> is a str, it is not the list \<open>["none"]\<close>, and
  \<open>join\<close> iterates over its characters: the warning shows the characters of the str
  joined with \<open>", "\<close>, not the str itself (under the same conditions on the steps before).
\<close>

theorem string_issues_joined_by_character:
  assumes "py_get result (lit ''severity'') (JStr (lit ''Unknown'')) = Inr severity"
    and "hashable severity"
    and "py_get result (lit ''tags'') (JList []) = Inr tags"
    and "\<not> is_list tags \<or> (\<exists>ts. tags = JList (map JStr ts))"
    and "py_get result (lit ''image_quality_issues'') (JList [JStr (lit ''none'')])
           = Inr (JStr s)"
  shows "\<exists>before rest.
      fst (display_results pystr result c q d ui) =
        ui @ before @
        [St Quality_col1 (Error (emoji_warning @ lit '' Detected issues: ''
           @ str_join (lit '', '') (map (\<lambda>ch. [ch]) s)))]
        @ rest
    \<and> length before = 10"
proof -
  have verdict:
    "(if JStr s = JList [JStr (lit ''none'')]
      then Inr (Success (emoji_check @ lit '' No quality issues detected''))
      else map_sum id (\<lambda>joined. Error (emoji_warning @ lit '' Detected issues: '' @ joined))
             (py_join (lit '', '') (JStr s)))
     = Inr (Error (emoji_warning @ lit '' Detected issues: ''
              @ str_join (lit '', '') (map (\<lambda>ch. [ch]) s)))"
    by simp
  show ?thesis
    by (rule verdict_line[OF assms verdict])
qed

theorem string_issues_joined_by_character_witness:
  "py_get (JDict [(lit ''image_quality_issues'', JStr (lit ''blur''))])
       (lit ''severity'') (JStr (lit ''Unknown'')) = Inr (JStr (lit ''Unknown''))
   \<and> hashable (JStr (lit ''Unknown''))
   \<and> py_get (JDict [(lit ''image_quality_issues'', JStr (lit ''blur''))])
       (lit ''tags'') (JList []) = Inr (JList [])
   \<and> (\<exists>ts. JList [] = JList (map JStr ts))
   \<and> py_get (JDict [(lit ''image_quality_issues'', JStr (lit ''blur''))])
       (lit ''image_quality_issues'') (JList [JStr (lit ''none'')]) = Inr (JStr (lit ''blur''))
   \<and> (\<exists>before rest.
        fst (display_results str_stub (JDict [(lit ''image_quality_issues'', JStr (lit ''blur''))])
               (lit ''Cafe 1'') (lit ''Is the floor clean?'') (lit ''2024-05-01 12:00:00'') [])
          = before @ [St Quality_col1 (Error (emoji_warning @ lit '' Detected issues: ''
               @ lit ''b, l, u, r''))] @ rest
        \<and> length before = 10)"
proof -
  let ?r = "JDict [(lit ''image_quality_issues'', JStr (lit ''blur''))]"
  have h1: "py_get ?r (lit ''severity'') (JStr (lit ''Unknown'')) = Inr (JStr (lit ''Unknown''))"
    by (simp add: lit_eq_iff)
  have h2: "hashable (JStr (lit ''Unknown''))"
    by simp
  have h3: "py_get ?r (lit ''tags'') (JList []) = Inr (JList [])"
    by (simp add: lit_eq_iff)
  have e: "\<exists>ts. JList [] = JList (map JStr ts)"
    by simp
  then have h4: "\<not> is_list (JList []) \<or> (\<exists>ts. JList [] = JList (map JStr ts))"
    by blast
  have h5: "py_get ?r (lit ''image_quality_issues'') (JList [JStr (lit ''none'')])
              = Inr (JStr (lit ''blur''))"
    by simp
  have j: "str_join (lit '', '') (map (\<lambda>ch. [ch]) (lit ''blur'')) = lit ''b, l, u, r''"
    by (simp add: lit_def)
  have "\<exists>before rest.
        fst (display_results str_stub ?r
               (lit ''Cafe 1'') (lit ''Is the floor clean?'') (lit ''2024-05-01 12:00:00'') [])
          = [] @ before @ [St Quality_col1 (Error (emoji_warning @ lit '' Detected issues: ''
               @ str_join (lit '', '') (map (\<lambda>ch. [ch]) (lit ''blur''))))] @ rest
        \<and> length before = 10"
    by (rule string_issues_joined_by_character[OF h1 h2 h3 h4 h5])
  then have "\<exists>before rest.
        fst (display_results str_stub ?r
               (lit ''Cafe 1'') (lit ''Is the floor clean?'') (lit ''2024-05-01 12:00:00'') [])
          = before @ [St Quality_col1 (Error (emoji_warning @ lit '' Detected issues: ''
               @ lit ''b, l, u, r''))] @ rest
        \<and> length before = 10"
    unfolding j by simp
  then show ?thesis
    using h1 h2 h3 e h5 by blast
qed

text \<open>
  C8. What the renderer adds to the page, and whether it ends by an exception, is the same
  on every page it is run on: it depends on the response, the site name, the question and
  the timestamp (and on the built-in \<open>str\<close>) alone.
\<close>

theorem display_results_deterministic:
  "\<exists>rendered outcome. \<forall>ui.
      display_results pystr result cafeteria_name question analysis_date ui
        = (ui @ rendered, outcome)"
  by (intro exI allI) (rule display_results_frame)

text \<open>
  C3, as the spec states it: a missing \<open>image_quality_issues\<close> is rendered as the empty list
  would be. It is not: the missing field gives the success confirmation, the empty list the
  warning.
\<close>

theorem missing_issues_as_empty_list_counterexample:
  "display_results str_stub (JDict []) (lit ''Cafe 1'') (lit ''Is the floor clean?'')
       (lit ''2024-05-01 12:00:00'') []
   \<noteq> display_results str_stub (JDict [(lit ''image_quality_issues'', JList [])])
       (lit ''Cafe 1'') (lit ''Is the floor clean?'') (lit ''2024-05-01 12:00:00'') []"
  by (simp add: display_results_def or_raise_def st_def Let_def dict_get_def severity_color_def
        lit_eq_iff lit_eq_Nil)

text \<open>
  C3, amended: a missing field is rendered as its default would be, which is \<open>Unknown\<close>
  for \<open>criteria_met\<close> and \<open>severity\<close>, \<open>No explanation provided\<close> for \<open>explanation\<close>, and
  the list \<open>["none"]\<close> for \<open>image_quality_issues\<close>; and a response with every field
  missing is rendered to the end without an exception.
\<close>

theorem missing_field_defaults:
  "(map_of kvs (lit ''criteria_met'') = None \<longrightarrow>
      display_results pystr (JDict kvs) c q d ui
        = display_results pystr (JDict ((lit ''criteria_met'', JStr (lit ''Unknown'')) # kvs)) c q d ui)
   \<and> (map_of kvs (lit ''severity'') = None \<longrightarrow>
      display_results pystr (JDict kvs) c q d ui
        = display_results pystr (JDict ((lit ''severity'', JStr (lit ''Unknown'')) # kvs)) c q d ui)
   \<and> (map_of kvs (lit ''explanation'') = None \<longrightarrow>
      display_results pystr (JDict kvs) c q d ui
        = display_results pystr
            (JDict ((lit ''explanation'', JStr (lit ''No explanation provided'')) # kvs)) c q d ui)
   \<and> (map_of kvs (lit ''image_quality_issues'') = None \<longrightarrow>
      display_results pystr (JDict kvs) c q d ui
        = display_results pystr
            (JDict ((lit ''image_quality_issues'', JList [JStr (lit ''none'')]) # kvs)) c q d ui)
   \<and> snd (display_results pystr (JDict []) c q d ui) = None"
proof (intro conjI impI)
  assume "map_of kvs (lit ''criteria_met'') = None"
  then show "display_results pystr (JDict kvs) c q d ui
        = display_results pystr (JDict ((lit ''criteria_met'', JStr (lit ''Unknown'')) # kvs)) c q d ui"
    by (intro display_results_cong) (simp_all add: lit_eq_iff)
next
  assume "map_of kvs (lit ''severity'') = None"
  then show "display_results pystr (JDict kvs) c q d ui
        = display_results pystr (JDict ((lit ''severity'', JStr (lit ''Unknown'')) # kvs)) c q d ui"
    by (intro display_results_cong) (simp_all add: lit_eq_iff)
next
  assume "map_of kvs (lit ''explanation'') = None"
  then show "display_results pystr (JDict kvs) c q d ui
        = display_results pystr
            (JDict ((lit ''explanation'', JStr (lit ''No explanation provided'')) # kvs)) c q d ui"
    by (intro display_results_cong) (simp_all add: lit_eq_iff)
next
  assume "map_of kvs (lit ''image_quality_issues'') = None"
  then show "display_results pystr (JDict kvs) c q d ui
        = display_results pystr
            (JDict ((lit ''image_quality_issues'', JList [JStr (lit ''none'')]) # kvs)) c q d ui"
    by (intro display_results_cong) (simp_all add: lit_eq_iff)
next
  show "snd (display_results pystr (JDict []) c q d ui) = None"
    by (simp add: display_results_def or_raise_def st_def Let_def dict_get_def severity_color_def
          lit_eq_iff lit_eq_Nil)
qed

theorem missing_field_defaults_witness:
  "map_of [(lit ''tags'', JStr (lit ''kitchen''))] (lit ''criteria_met'') = None
   \<and> map_of [(lit ''tags'', JStr (lit ''kitchen''))] (lit ''severity'') = None
   \<and> map_of [(lit ''tags'', JStr (lit ''kitchen''))] (lit ''explanation'') = None
   \<and> map_of [(lit ''tags'', JStr (lit ''kitchen''))] (lit ''image_quality_issues'') = None
   \<and> display_results str_stub (JDict [(lit ''tags'', JStr (lit ''kitchen''))])
         (lit ''Cafe 1'') (lit ''Is the floor clean?'') (lit ''2024-05-01 12:00:00'') []
       = display_results str_stub
           (JDict [(lit ''criteria_met'', JStr (lit ''Unknown'')), (lit ''tags'', JStr (lit ''kitchen''))])
           (lit ''Cafe 1'') (lit ''Is the floor clean?'') (lit ''2024-05-01 12:00:00'') []
   \<and> display_results str_stub (JDict [(lit ''tags'', JStr (lit ''kitchen''))])
         (lit ''Cafe 1'') (lit ''Is the floor clean?'') (lit ''2024-05-01 12:00:00'') []
       = display_results str_stub
           (JDict [(lit ''severity'', JStr (lit ''Unknown'')), (lit ''tags'', JStr (lit ''kitchen''))])
           (lit ''Cafe 1'') (lit ''Is the floor clean?'') (lit ''2024-05-01 12:00:00'') []
   \<and> display_results str_stub (JDict [(lit ''tags'', JStr (lit ''kitchen''))])
         (lit ''Cafe 1'') (lit ''Is the floor clean?'') (lit ''2024-05-01 12:00:00'') []
       = display_results str_stub
           (JDict [(lit ''explanation'', JStr (lit ''No explanation provided'')),
                   (lit ''tags'', JStr (lit ''kitchen''))])
           (lit ''Cafe 1'') (lit ''Is the floor clean?'') (lit ''2024-05-01 12:00:00'') []
   \<and> display_results str_stub (JDict [(lit ''tags'', JStr (lit ''kitchen''))])
         (lit ''Cafe 1'') (lit ''Is the floor clean?'') (lit ''2024-05-01 12:00:00'') []
       = display_results str_stub
           (JDict [(lit ''image_quality_issues'', JList [JStr (lit ''none'')]),
                   (lit ''tags'', JStr (lit ''kitchen''))])
           (lit ''Cafe 1'') (lit ''Is the floor clean?'') (lit ''2024-05-01 12:00:00'') []"
proof -
  let ?kvs = "[(lit ''tags'', JStr (lit ''kitchen''))]"
  have h1: "map_of ?kvs (lit ''criteria_met'') = None"
    and h2: "map_of ?kvs (lit ''severity'') = None"
    and h3: "map_of ?kvs (lit ''explanation'') = None"
    and h4: "map_of ?kvs (lit ''image_quality_issues'') = None"
    by (simp_all add: lit_eq_iff)
  note t = missing_field_defaults[of ?kvs str_stub "lit ''Cafe 1''" "lit ''Is the floor clean?''"
      "lit ''2024-05-01 12:00:00''" "[]"]
  show ?thesis
    using h1 h2 h3 h4 t by blast
qed


section \<open>The submission handler\<close>

subsection \<open>Auxiliary facts about \<open>main\<close> and the analysis\<close>

lemma main_rejected:
  assumes "\<not> (key \<noteq> [] \<and> cafeteria_name \<noteq> [] \<and> question \<noteq> [] \<and> uploaded_image \<noteq> None)"
  shows "main env key cafeteria_name question uploaded_image True ui =
    (let ui8 = ui @ [St Page (Title (emoji_pot @ lit '' HungerBox Food Safety Analyzer'')),
                     St Page (Markdown (lit ''### AI-powered Compliance Assessment for Cafeteria Operations'') False),
                     St Page (Form_block (lit ''input_form'')),
                     St Form (Columns [1, 1]),
                     St Form_col1 (Text_input (lit ''OpenAI API Key'') True),
                     St Form_col1 (Text_input (lit ''Cafeteria Name'') False),
                     St Form_col1 (Text_area (lit ''Assessment Question'')
                                     (lit ''Enter your food safety question...'')),
                     St Form_col2 (File_uploader (lit ''Upload Cafeteria Image'')
                                     [lit ''jpg'', lit ''jpeg'', lit ''png'']
                                     (lit ''Upload a clear image of the area to assess''))]
     in
     or_raise (case uploaded_image of
                 None \<Rightarrow> Inr None
               | Some f \<Rightarrow> map_sum id Some (Image_open env f)) ui8 (\<lambda>pil_image.
     or_raise (case pil_image of
                 None \<Rightarrow> Inr ui8
               | Some img \<Rightarrow>
                   (case st_image env img of
                      Some e \<Rightarrow> Inl e
                    | None \<Rightarrow> Inr (ui8 @ [St Form_col2 (Image (lit ''Preview of Uploaded Image''))])))
       ui8 (\<lambda>ui9.
       (ui9 @ [St Form (Form_submit_button (lit ''Analyze Compliance'')),
               St Page (Error (emoji_warning
                         @ lit '' Please fill all required fields and upload an image''))],
        None))))"
  unfolding main_def Let_def st_def
  by (simp only: assms not_False_eq_True if_True append_assoc append_Cons append_Nil)

lemma main_accepted:
  assumes "key \<noteq> []" and "cafeteria_name \<noteq> []" and "question \<noteq> []"
    and "Image_open env f = Inr img" and "st_image env img = None"
  shows "main env key cafeteria_name question (Some f) True ui =
    (case analysis env key cafeteria_name question (Some img)
            (ui @ [St Page (Title (emoji_pot @ lit '' HungerBox Food Safety Analyzer'')),
                   St Page (Markdown (lit ''### AI-powered Compliance Assessment for Cafeteria Operations'') False),
                   St Page (Form_block (lit ''input_form'')),
                   St Form (Columns [1, 1]),
                   St Form_col1 (Text_input (lit ''OpenAI API Key'') True),
                   St Form_col1 (Text_input (lit ''Cafeteria Name'') False),
                   St Form_col1 (Text_area (lit ''Assessment Question'')
                                   (lit ''Enter your food safety question...'')),
                   St Form_col2 (File_uploader (lit ''Upload Cafeteria Image'')
                                   [lit ''jpg'', lit ''jpeg'', lit ''png'']
                                   (lit ''Upload a clear image of the area to assess'')),
                   St Form_col2 (Image (lit ''Preview of Uploaded Image'')),
                   St Form (Form_submit_button (lit ''Analyze Compliance''))]) of
       (ui11, None) \<Rightarrow> (ui11, None)
     | (ui11, Some e) \<Rightarrow>
         (ui11 @ [St Page (Error (lit ''Analysis failed: '' @ str_exc env e))], None))"
  unfolding main_def Let_def st_def
  by (simp add: assms or_raise_def)

lemma main_accepted_not_fatal:
  assumes "key \<noteq> []" and "cafeteria_name \<noteq> []" and "question \<noteq> []"
    and "Image_open env f = Inr img" and "st_image env img = None"
  shows "snd (main env key cafeteria_name question (Some f) True ui) = None"
  unfolding main_accepted[OF assms]
  by (simp split: prod.split option.split)

text \<open>
  The renderer sends no request, and a rendering that raises has shown no error message: the
  only error element of the report, the warning about the image quality, is written after the
  last step that can raise on a dict.
\<close>

lemma or_raise_no_create:
  assumes "filter is_create ui = []" and "\<And>v. filter is_create (fst (k v)) = []"
  shows "filter is_create (fst (or_raise r ui k)) = []"
  using assms by (cases r) (simp_all add: or_raise_def)

lemma or_raise_quiet:
  assumes "filter is_error ui = []"
    and "\<And>v. snd (k v) \<noteq> None \<longrightarrow> filter is_error (fst (k v)) = []"
  shows "snd (or_raise r ui k) \<noteq> None \<longrightarrow> filter is_error (fst (or_raise r ui k)) = []"
  using assms by (cases r) (simp_all add: or_raise_def)

lemma display_results_no_create:
  "filter is_create (fst (display_results pystr r c q d [])) = []"
  unfolding display_results_def Let_def st_def
  apply (simp only: append_Nil)
  apply (intro or_raise_no_create)
  apply simp_all
  done

lemma display_results_quiet:
  "snd (display_results pystr r c q d []) \<noteq> None
     \<longrightarrow> filter is_error (fst (display_results pystr r c q d [])) = []"
proof (cases r)
  case (JDict kvs)
  show ?thesis
    unfolding JDict display_results_def Let_def st_def
    apply (simp only: py_get.simps or_raise_Inr append_Nil)
    apply (intro or_raise_quiet)
    apply simp_all
    done
qed (simp_all add: display_results_def Let_def st_def or_raise_def)

lemma display_results_raises:
  assumes "snd (display_results pystr r c q d []) = Some e"
  shows "snd (display_results pystr r c q d ui) = Some e
    \<and> filter is_error (fst (display_results pystr r c q d ui)) = filter is_error ui
    \<and> filter is_create (fst (display_results pystr r c q d ui)) = filter is_create ui"
proof -
  have f: "display_results pystr r c q d ui
      = (ui @ fst (display_results pystr r c q d []), snd (display_results pystr r c q d []))"
    by (rule display_results_frame)
  have quiet: "filter is_error (fst (display_results pystr r c q d [])) = []"
    using display_results_quiet[of pystr r c q d] assms by simp
  show ?thesis
    by (subst (1 2 3) f) (simp add: assms quiet display_results_no_create)
qed
lemma display_results_raises_all:
  assumes "snd (display_results pystr r c q d []) = Some e"
  shows "\<forall>ui. snd (display_results pystr r c q d ui) = Some e
    \<and> filter is_error (fst (display_results pystr r c q d ui)) = filter is_error ui
    \<and> filter is_create (fst (display_results pystr r c q d ui)) = filter is_create ui"
  using display_results_raises[OF assms] by blast

text \<open>
  The six places of the \<open>try\<close> block that can raise, in the order of the code: the PNG
  encoding, the request, \<open>choices[0]\<close>, \<open>json.loads\<close> on a missing content, \<open>json.loads\<close>
  on the text, and the rendering of the report. Wherever the exception comes from, the
  analysis has shown no error message and has sent at most one request.
\<close>

lemma analysis_outcome:
  fixes env :: "('f, 'img) env"
  assumes "save_png env img = Inl e
    \<or> (\<exists>png. save_png env img = Inr png
        \<and> (create env \<lparr>api_key = key, model = lit ''gpt-4o'', prompt = prompt_text question,
                         image_url = lit ''data:image/png;base64,'' @ b64encode env png,
                         response_format = lit ''json_object''\<rparr> = Inl e
           \<or> (\<exists>resp.
                 create env \<lparr>api_key = key, model = lit ''gpt-4o'', prompt = prompt_text question,
                             image_url = lit ''data:image/png;base64,'' @ b64encode env png,
                             response_format = lit ''json_object''\<rparr> = Inr resp
               \<and> (choices resp = [] \<and> e = IndexError
                  \<or> (\<exists>c0 cs. choices resp = c0 # cs
                      \<and> (content (message c0) = None \<and> e = TypeError
                         \<or> (\<exists>s. content (message c0) = Some s
                             \<and> (json_loads env s = Inl e
                                \<or> (\<exists>result. json_loads env s = Inr result
                                    \<and> snd (display_results (str_of env) result cafeteria_name
                                             question (now env) []) = Some e)))))))))"
  shows "snd (analysis env key cafeteria_name question (Some img) page) = Some e
    \<and> filter is_error (fst (analysis env key cafeteria_name question (Some img) page))
        = filter is_error page
    \<and> length (filter is_create (fst (analysis env key cafeteria_name question (Some img) page)))
        \<le> Suc (length (filter is_create page))"
  using assms
  apply (elim disjE exE conjE)
  subgoal by (simp add: analysis_def Let_def st_def or_raise_def)
  subgoal by (simp add: analysis_def Let_def st_def or_raise_def)
  subgoal by (simp add: analysis_def Let_def st_def or_raise_def)
  subgoal by (simp add: analysis_def Let_def st_def or_raise_def)
  subgoal by (simp add: analysis_def Let_def st_def or_raise_def)
  subgoal
    apply (drule display_results_raises_all)
    apply (simp add: analysis_def Let_def st_def or_raise_def)
    done
  done

lemma main_accepted_form:
  assumes "key \<noteq> []" and "cafeteria_name \<noteq> []" and "question \<noteq> []"
    and "Image_open env f = Inr img" and "st_image env img = None"
  shows "\<exists>form. main env key cafeteria_name question (Some f) True ui =
      (case analysis env key cafeteria_name question (Some img) (ui @ form) of
         (ui11, None) \<Rightarrow> (ui11, None)
       | (ui11, Some e) \<Rightarrow>
           (ui11 @ [St Page (Error (lit ''Analysis failed: '' @ str_exc env e))], None))
    \<and> filter is_error form = [] \<and> filter is_create form = []"
  apply (intro exI conjI)
    apply (rule main_accepted[OF assms])
   apply simp_all
  done

subsection \<open>Validation of the submission\<close>

text \<open>
  C1, as the spec states it: every submission with a missing credential, site name, question
  or image is answered with the validation error. The code opens and previews the uploaded
  file (lines 56 to 58 of \<open>app.py\<close>) before it validates (line 64) and outside the
  \<open>try\<close>: with an empty credential and an uploaded file that PIL cannot read, the
  exception of \<open>Image.open\<close> leaves \<open>main\<close> and the validation error is never
  shown.
\<close>

theorem validation_error_not_shown_counterexample:
  "St Page (Error (emoji_warning @ lit '' Please fill all required fields and upload an image''))
     \<notin> set (fst (main unreadable_env [] (lit ''Cafe 1'') (lit ''Is the floor clean?'')
                     (Some ()) True []))
   \<and> snd (main unreadable_env [] (lit ''Cafe 1'') (lit ''Is the floor clean?'') (Some ()) True [])
       = Some (LibraryError (lit ''cannot identify image file''))"
  by (simp add: main_def unreadable_env_def Let_def st_def or_raise_def)

text \<open>
  C1, amended: for every submission in which the credential, the site name or the question is
  empty or no image is uploaded, neither the PNG encoding nor the request to the model is
  attempted; and when the preview of the upload does not raise (no file, or a file that PIL
  opens and Streamlit shows), \<open>main\<close> returns normally with the validation error as the
  last element of the page and as the only error message of the run.
\<close>

theorem validation_rejects_incomplete_submission:
  fixes env :: "('f, 'img) env"
  assumes "key = [] \<or> cafeteria_name = [] \<or> question = [] \<or> uploaded_image = None"
  shows "filter is_attempt (fst (main env key cafeteria_name question uploaded_image True ui))
           = filter is_attempt ui
    \<and> ((uploaded_image = None
          \<or> (\<exists>f img. uploaded_image = Some f \<and> Image_open env f = Inr img
                \<and> st_image env img = None))
        \<longrightarrow> snd (main env key cafeteria_name question uploaded_image True ui) = None
          \<and> last (fst (main env key cafeteria_name question uploaded_image True ui))
              = St Page (Error (emoji_warning
                          @ lit '' Please fill all required fields and upload an image''))
          \<and> filter is_error (fst (main env key cafeteria_name question uploaded_image True ui))
              = filter is_error ui
                @ [St Page (Error (emoji_warning
                            @ lit '' Please fill all required fields and upload an image''))])"
proof -
  have cond: "\<not> (key \<noteq> [] \<and> cafeteria_name \<noteq> [] \<and> question \<noteq> [] \<and> uploaded_image \<noteq> None)"
    using assms by blast
  note m = main_rejected[OF cond, of env ui, unfolded Let_def]
  show ?thesis
  proof (cases uploaded_image)
    case None
    show ?thesis
      unfolding m using None by (simp add: or_raise_def)
  next
    case (Some f)
    show ?thesis
    proof (cases "Image_open env f")
      case (Inl e)
      show ?thesis
        unfolding m using Some Inl by (simp add: or_raise_def)
    next
      case (Inr img)
      show ?thesis
        unfolding m using Some Inr by (cases "st_image env img") (simp_all add: or_raise_def)
    qed
  qed
qed

theorem validation_rejects_incomplete_submission_witness:
  "filter is_attempt (fst (main offline_env [] (lit ''Cafe 1'') (lit ''Is the floor clean?'')
                             (Some ()) True [])) = []
   \<and> snd (main offline_env [] (lit ''Cafe 1'') (lit ''Is the floor clean?'') (Some ()) True [])
       = None
   \<and> last (fst (main offline_env [] (lit ''Cafe 1'') (lit ''Is the floor clean?'')
                   (Some ()) True []))
       = St Page (Error (emoji_warning
                   @ lit '' Please fill all required fields and upload an image''))
   \<and> filter is_error (fst (main offline_env [] (lit ''Cafe 1'') (lit ''Is the floor clean?'')
                             (Some ()) True []))
       = [St Page (Error (emoji_warning
                   @ lit '' Please fill all required fields and upload an image''))]"
proof -
  have h: "([] :: ustr) = [] \<or> lit ''Cafe 1'' = [] \<or> lit ''Is the floor clean?'' = []
      \<or> Some () = (None :: unit option)"
    by simp
  have p: "Some () = (None :: unit option)
      \<or> (\<exists>f img. Some () = Some f \<and> Image_open offline_env f = Inr img
            \<and> st_image offline_env img = None)"
    by (simp add: offline_env_def)
  note t = validation_rejects_incomplete_submission[OF h, of offline_env "[]"]
  show ?thesis
    using t p by simp
qed

subsection \<open>Failures of the analysis\<close>

text \<open>
  C2, as the spec states it: every exception of the analysis stage, which starts with decoding
  the uploaded image, is caught and reported as one error message. The upload is decoded by
  \<open>Image.open\<close> on line 57 of \<open>app.py\<close>, in the form and before the \<open>try\<close> of line 68:
  with all four inputs present and a file that PIL cannot read, the exception leaves \<open>main\<close>
  and no error message is written.
\<close>

theorem unreadable_upload_not_reported_counterexample:
  "snd (main unreadable_env (lit ''sk-test'') (lit ''Cafe 1'') (lit ''Is the floor clean?'')
          (Some ()) True [])
     = Some (LibraryError (lit ''cannot identify image file''))
   \<and> filter is_error (fst (main unreadable_env (lit ''sk-test'') (lit ''Cafe 1'')
                             (lit ''Is the floor clean?'') (Some ()) True []))
     = []"
  by (simp add: main_def unreadable_env_def Let_def st_def or_raise_def)

text \<open>
  C2, amended: on a submission with all four inputs whose upload was opened and previewed, no
  exception of the \<open>try\<close> block leaves \<open>main\<close>: the run returns normally. Whatever raises
  the exception \<open>e\<close> there (the PNG encoding, the request to the model, reading the first
  choice of the reply, parsing its content as JSON, or rendering the report), the page ends
  with the message \<open>Analysis failed: \<close> followed by \<open>str(e)\<close>, this is the only error
  message of the run, and at most one request was sent to the model (nothing is retried).
\<close>

theorem analysis_failure_reported_once:
  fixes env :: "('f, 'img) env"
  assumes "key \<noteq> []" and "cafeteria_name \<noteq> []" and "question \<noteq> []"
    and "uploaded_image = Some f"
    and "Image_open env f = Inr img" and "st_image env img = None"
  shows "snd (main env key cafeteria_name question uploaded_image True ui) = None
    \<and> (\<forall>e.
         (save_png env img = Inl e
          \<or> (\<exists>png. save_png env img = Inr png
              \<and> (create env \<lparr>api_key = key, model = lit ''gpt-4o'', prompt = prompt_text question,
                               image_url = lit ''data:image/png;base64,'' @ b64encode env png,
                               response_format = lit ''json_object''\<rparr> = Inl e
                 \<or> (\<exists>resp.
                       create env \<lparr>api_key = key, model = lit ''gpt-4o'',
                                   prompt = prompt_text question,
                                   image_url = lit ''data:image/png;base64,'' @ b64encode env png,
                                   response_format = lit ''json_object''\<rparr> = Inr resp
                     \<and> (choices resp = [] \<and> e = IndexError
                        \<or> (\<exists>c0 cs. choices resp = c0 # cs
                            \<and> (content (message c0) = None \<and> e = TypeError
                               \<or> (\<exists>s. content (message c0) = Some s
                                   \<and> (json_loads env s = Inl e
                                      \<or> (\<exists>result. json_loads env s = Inr result
                                          \<and> snd (display_results (str_of env) result
                                                   cafeteria_name question (now env) [])
                                              = Some e))))))))))
         \<longrightarrow>
           last (fst (main env key cafeteria_name question uploaded_image True ui))
             = St Page (Error (lit ''Analysis failed: '' @ str_exc env e))
         \<and> filter is_error (fst (main env key cafeteria_name question uploaded_image True ui))
             = filter is_error ui @ [St Page (Error (lit ''Analysis failed: '' @ str_exc env e))]
         \<and> length (filter is_create
                     (fst (main env key cafeteria_name question uploaded_image True ui)))
             \<le> length (filter is_create ui) + 1)"
  (is "?returns \<and> (\<forall>e. ?fails e \<longrightarrow> ?reported e)")
proof -
  have returns: ?returns
    unfolding assms(4) by (rule main_accepted_not_fatal[OF assms(1,2,3,5,6)])
  have reported: "?reported e" if fails: "?fails e" for e
  proof -
    obtain form where m: "main env key cafeteria_name question (Some f) True ui =
        (case analysis env key cafeteria_name question (Some img) (ui @ form) of
           (ui11, None) \<Rightarrow> (ui11, None)
         | (ui11, Some e) \<Rightarrow>
             (ui11 @ [St Page (Error (lit ''Analysis failed: '' @ str_exc env e))], None))"
      and fe: "filter is_error form = []" and fc: "filter is_create form = []"
      using main_accepted_form[OF assms(1,2,3,5,6)] by blast
    let ?A = "analysis env key cafeteria_name question (Some img) (ui @ form)"
    have a: "snd ?A = Some e
        \<and> filter is_error (fst ?A) = filter is_error (ui @ form)
        \<and> length (filter is_create (fst ?A)) \<le> Suc (length (filter is_create (ui @ form)))"
      by (rule analysis_outcome[OF fails])
    obtain p where ap: "?A = (p, Some e)"
      using a by (cases ?A) simp
    have pe: "filter is_error p = filter is_error ui"
      and pc: "length (filter is_create p) \<le> Suc (length (filter is_create ui))"
      using a unfolding ap by (simp_all add: fe fc)
    show ?thesis
      unfolding assms(4) m ap using pc by (simp add: pe)
  qed
  show ?thesis
    using returns reported by blast
qed

theorem analysis_failure_reported_once_witness:
  "snd (main offline_env (lit ''sk-test'') (lit ''Cafe 1'') (lit ''Is the floor clean?'')
          (Some ()) True []) = None
   \<and> last (fst (main offline_env (lit ''sk-test'') (lit ''Cafe 1'') (lit ''Is the floor clean?'')
                   (Some ()) True []))
       = St Page (Error (lit ''Analysis failed: Connection error.''))
   \<and> filter is_error (fst (main offline_env (lit ''sk-test'') (lit ''Cafe 1'')
                             (lit ''Is the floor clean?'') (Some ()) True []))
       = [St Page (Error (lit ''Analysis failed: Connection error.''))]
   \<and> length (filter is_create (fst (main offline_env (lit ''sk-test'') (lit ''Cafe 1'')
                                      (lit ''Is the floor clean?'') (Some ()) True []))) \<le> 1"
proof -
  have k: "lit ''sk-test'' \<noteq> []" and c: "lit ''Cafe 1'' \<noteq> []"
    and q: "lit ''Is the floor clean?'' \<noteq> []"
    by (simp_all add: lit_def)
  have u: "Some () = Some ()"
    by simp
  have i: "Image_open offline_env () = Inr ()" and s: "st_image offline_env () = None"
    by (simp_all add: offline_env_def)
  have fails: "save_png offline_env () = Inr []
      \<and> create offline_env
          \<lparr>api_key = lit ''sk-test'', model = lit ''gpt-4o'',
           prompt = prompt_text (lit ''Is the floor clean?''),
           image_url = lit ''data:image/png;base64,'' @ b64encode offline_env [],
           response_format = lit ''json_object''\<rparr>
        = Inl (LibraryError (lit ''Connection error.''))"
    by (simp add: offline_env_def)
  have msg: "lit ''Analysis failed: '' @ str_exc offline_env (LibraryError (lit ''Connection error.''))
      = lit ''Analysis failed: Connection error.''"
    by (simp add: lit_def)
  note t = analysis_failure_reported_once[OF k c q u i s, of "[]"]
  have r: "last (fst (main offline_env (lit ''sk-test'') (lit ''Cafe 1'')
                       (lit ''Is the floor clean?'') (Some ()) True []))
        = St Page (Error (lit ''Analysis failed: ''
                    @ str_exc offline_env (LibraryError (lit ''Connection error.''))))
      \<and> filter is_error (fst (main offline_env (lit ''sk-test'') (lit ''Cafe 1'')
                                (lit ''Is the floor clean?'') (Some ()) True []))
        = filter is_error [] @ [St Page (Error (lit ''Analysis failed: ''
                    @ str_exc offline_env (LibraryError (lit ''Connection error.''))))]
      \<and> length (filter is_create (fst (main offline_env (lit ''sk-test'') (lit ''Cafe 1'')
                                         (lit ''Is the floor clean?'') (Some ()) True [])))
        \<le> length (filter is_create []) + 1"
    using t fails by blast
  show ?thesis
    using t r unfolding msg by simp
qed
end
